theory Spec2Isabelle
  imports Main
begin

section \<open>Data model\<close>

text \<open>
  The columns of \<^verbatim>\<open>models/usuario.py\<close> (class Usuario) and
  \<^verbatim>\<open>models/documento.py\<close> (class Documento) that the permission rules, the OTP
  lifecycle and the lockout counter read or write. Roles, security levels, document
  states and actions are plain strings in the source and stay strings here, so that an
  unlisted value takes the default branch exactly as the Python does. Timestamps are
  seconds since the epoch. A nullable column is an option.
\<close>

record usuario =
  id_usuario :: int
  email :: string
  password_hash :: "string option"
  rol :: string
  activo :: bool
  fecha_ultimo_acceso :: "int option"
  intentos_login_fallidos :: int
  clave_otp_base32 :: "string option"
  otp_habilitado :: bool
  fecha_ultimo_otp :: "int option"

record documento =
  id_documento :: int
  propietario_id :: int
  nivel_seguridad :: string
  estado :: string
  ruta_archivo :: "string option"
  fecha_modificacion :: "int option"
  fecha_ultimo_acceso_doc :: "int option"
  contador_descargas :: int
  contador_visualizaciones :: int

text \<open>Python truthiness of an optional string: None and the empty string are falsy.\<close>

definition presente :: "string option \<Rightarrow> bool" where
  "presente s = (case s of None \<Rightarrow> False | Some v \<Rightarrow> v \<noteq> [])"

section \<open>Roles and permissions (models/usuario.py)\<close>

definition es_admin :: "usuario \<Rightarrow> bool" where
  "es_admin u = (rol u = ''admin'')"

definition es_supervisor :: "usuario \<Rightarrow> bool" where
  "es_supervisor u = (rol u \<in> set [''supervisor'', ''admin''])"

definition puede_acceder_documento :: "usuario \<Rightarrow> documento \<Rightarrow> bool" where
  "puede_acceder_documento u d =
     (if es_admin u then True
      else if propietario_id d = id_usuario u then True
      else if nivel_seguridad d = ''publico'' then True
      else if es_supervisor u \<and> nivel_seguridad d = ''confidencial'' then True
      else False)"

definition puede_modificar_documento :: "usuario \<Rightarrow> documento \<Rightarrow> bool" where
  "puede_modificar_documento u d =
     (if es_admin u then True
      else if propietario_id d = id_usuario u then True
      else if es_supervisor u \<and> nivel_seguridad d \<noteq> ''secreto'' then True
      else False)"

definition puede_eliminar_documento :: "usuario \<Rightarrow> documento \<Rightarrow> bool" where
  "puede_eliminar_documento u d = (es_admin u \<or> propietario_id d = id_usuario u)"

text \<open>
  The dispatch on the action inside the decorator \<^verbatim>\<open>validar_acceso_documento\<close>
  (utils/decoradores.py): \<^verbatim>\<open>puede_realizar_accion\<close> starts False and only the four
  listed actions assign it. The methods \<^verbatim>\<open>Documento.puede_ser_*_por\<close> forward to
  the three methods of Usuario above.
\<close>

definition puede_realizar_accion :: "string \<Rightarrow> usuario \<Rightarrow> documento \<Rightarrow> bool" where
  "puede_realizar_accion accion u d =
     (if accion = ''ver'' then puede_acceder_documento u d
      else if accion = ''editar'' then puede_modificar_documento u d
      else if accion = ''eliminar'' then puede_eliminar_documento u d
      else if accion = ''descargar'' then puede_acceder_documento u d
      else False)"

section \<open>OTP policy matrix (models/otp.py, GestorOTP.requiere_otp_para_accion)\<close>

definition reglas_otp :: "string \<Rightarrow> string \<rightharpoonup> (string \<rightharpoonup> bool)" where
  "reglas_otp rol_usuario =
     [''secreto'' \<mapsto>
        [''ver'' \<mapsto> True, ''eliminar'' \<mapsto> True, ''descargar'' \<mapsto> True],
      ''confidencial'' \<mapsto>
        [''ver'' \<mapsto> False, ''eliminar'' \<mapsto> True,
         ''descargar'' \<mapsto> (rol_usuario = ''usuario'')],
      ''publico'' \<mapsto>
        [''ver'' \<mapsto> False, ''eliminar'' \<mapsto> (rol_usuario \<noteq> ''admin''),
         ''descargar'' \<mapsto> False]]"

definition requiere_otp_para_accion :: "string \<Rightarrow> string \<Rightarrow> string \<Rightarrow> bool" where
  "requiere_otp_para_accion accion nivel rol_usuario =
     (case (case reglas_otp rol_usuario nivel of None \<Rightarrow> Map.empty | Some m \<Rightarrow> m) accion of
        None \<Rightarrow> False
      | Some b \<Rightarrow> b)"

section \<open>Time-based codes (models/otp.py, GestorOTP.validar_otp_codigo)\<close>

text \<open>
  Modelled from the spec: the library \<^verbatim>\<open>pyotp\<close> (class TOTP with \<^verbatim>\<open>now\<close>,
  \<^verbatim>\<open>at\<close> and \<^verbatim>\<open>verify\<close>) is imported by \<^verbatim>\<open>models/otp.py\<close> and is not
  among the sources. Following section 4.3 of the specification, the code for a secret is
  a function of the time step \<^verbatim>\<open>floor(unixTime / 30)\<close>, and verification with a
  tolerance of \<^verbatim>\<open>valid_window\<close> steps compares the submitted code with the code of
  every step from \<^verbatim>\<open>-valid_window\<close> to \<^verbatim>\<open>+valid_window\<close> around the current one.
  The derivation itself (HMAC over the step) is a parameter: \<open>gen clave paso\<close> is the
  code for that step, or \<open>None\<close> where the library raises (a secret that is not
  base32, for instance).
\<close>

type_synonym generador = "string \<Rightarrow> int \<Rightarrow> string option"

text \<open>
  Modelled from the spec: \<^verbatim>\<open>TOTP.timecode\<close> of pyotp is not in the sources; the
  time step of a clock reading is \<^verbatim>\<open>floor(unixTime / 30)\<close>.
\<close>

definition timecode :: "int \<Rightarrow> int" where
  "timecode t = t div 30"

text \<open>
  Modelled from the spec: \<^verbatim>\<open>TOTP.verify(otp, valid_window)\<close> of pyotp is not in the
  sources; the submitted code is compared with the code of each step of the window in
  turn, the first match accepts, and a failure of the derivation propagates.
\<close>

fun verify_pasos :: "(int \<Rightarrow> string option) \<Rightarrow> string \<Rightarrow> int list \<Rightarrow> bool option" where
  "verify_pasos codigo_en otp [] = Some False"
| "verify_pasos codigo_en otp (i # resto) =
     (case codigo_en i of
        None \<Rightarrow> None
      | Some c \<Rightarrow> if c = otp then Some True else verify_pasos codigo_en otp resto)"

definition totp_verify :: "generador \<Rightarrow> string \<Rightarrow> int \<Rightarrow> string \<Rightarrow> int \<Rightarrow> bool option" where
  "totp_verify gen clave t otp valid_window =
     verify_pasos (\<lambda>i. gen clave (timecode t + i)) otp [- valid_window .. valid_window]"

text \<open>
  \<^verbatim>\<open>validar_otp_codigo\<close> as written: the current code, the verification with
  \<^verbatim>\<open>valid_window=1\<close>, then the loop over \<^verbatim>\<open>range(-2, 3)\<close> that recomputes five
  codes and discards them. The whole body sits in a \<^verbatim>\<open>try\<close>; any exception gives the
  error dictionary, whose \<^verbatim>\<open>es_valido\<close> is False. \<open>ahora\<close> is the clock reading.
\<close>

record resultado_validacion =
  es_valido :: bool
  codigo_actual_servidor :: "string option"
  mensaje :: string

definition error_validacion :: resultado_validacion where
  "error_validacion =
     \<lparr>es_valido = False, codigo_actual_servidor = None,
      mensaje = ''Error interno en validacion OTP''\<rparr>"

definition validar_otp_codigo :: "generador \<Rightarrow> int \<Rightarrow> string \<Rightarrow> string \<Rightarrow> resultado_validacion" where
  "validar_otp_codigo gen ahora codigo_otp clave =
     (case gen clave (timecode ahora) of
        None \<Rightarrow> error_validacion
      | Some codigo_actual \<Rightarrow>
          (case totp_verify gen clave ahora codigo_otp 1 of
             None \<Rightarrow> error_validacion
           | Some v \<Rightarrow>
               if list_all (\<lambda>i. gen clave (timecode (ahora + i * 30)) \<noteq> None) [-2 .. 2]
               then \<lparr>es_valido = v, codigo_actual_servidor = Some codigo_actual,
                     mensaje = (if v then ''OTP valido'' else ''OTP invalido'')\<rparr>
               else error_validacion))"

section \<open>Second factor of a user (models/usuario.py)\<close>

text \<open>
  \<^verbatim>\<open>configurar_otp\<close>: \<open>datos_otp\<close> is what \<^verbatim>\<open>GestorOTP.generar_otp_para_usuario\<close>
  returned, reduced to the fresh random key (\<open>None\<close> when the generation failed).
\<close>

definition configurar_otp :: "string option \<Rightarrow> usuario \<Rightarrow> string option \<times> usuario" where
  "configurar_otp datos_otp u =
     (case datos_otp of
        None \<Rightarrow> (None, u)
      | Some clave \<Rightarrow> (Some clave, u\<lparr>clave_otp_base32 := Some clave, otp_habilitado := False\<rparr>))"

definition validar_otp :: "generador \<Rightarrow> int \<Rightarrow> usuario \<Rightarrow> string \<Rightarrow> bool \<times> usuario" where
  "validar_otp gen ahora u codigo_otp =
     (if \<not> otp_habilitado u then (False, u)
      else (case clave_otp_base32 u of
        None \<Rightarrow> (False, u)
      | Some clave \<Rightarrow>
          if clave = [] then (False, u)
          else if es_valido (validar_otp_codigo gen ahora codigo_otp clave)
            then (True, u\<lparr>fecha_ultimo_otp := Some ahora\<rparr>)
            else (False, u)))"

definition validar_otp_con_debug :: "generador \<Rightarrow> int \<Rightarrow> usuario \<Rightarrow> string \<Rightarrow> bool \<times> usuario" where
  "validar_otp_con_debug gen ahora u codigo_otp =
     (case clave_otp_base32 u of
        None \<Rightarrow> (False, u)
      | Some clave \<Rightarrow>
          if clave = [] then (False, u)
          else if es_valido (validar_otp_codigo gen ahora codigo_otp clave)
            then (True, u\<lparr>fecha_ultimo_otp := Some ahora\<rparr>)
            else (False, u))"

definition activar_otp_con_validacion :: "generador \<Rightarrow> int \<Rightarrow> usuario \<Rightarrow> string \<Rightarrow> bool \<times> usuario" where
  "activar_otp_con_validacion gen ahora u codigo_validacion =
     (if \<not> presente (clave_otp_base32 u) then (False, u)
      else (case validar_otp gen ahora u codigo_validacion of
        (True, u1) \<Rightarrow> (True, u1\<lparr>otp_habilitado := True, fecha_ultimo_otp := Some ahora\<rparr>)
      | (False, u1) \<Rightarrow> (False, u1)))"

section \<open>Lockout counter and primary authentication\<close>

definition registrar_intento_fallido :: "usuario \<Rightarrow> usuario" where
  "registrar_intento_fallido u =
     u\<lparr>intentos_login_fallidos := intentos_login_fallidos u + 1\<rparr>"

definition esta_bloqueado :: "usuario \<Rightarrow> bool" where
  "esta_bloqueado u = (intentos_login_fallidos u \<ge> 5)"

definition desbloquear_cuenta :: "usuario \<Rightarrow> usuario" where
  "desbloquear_cuenta u = u\<lparr>intentos_login_fallidos := 0\<rparr>"

text \<open>
  \<^verbatim>\<open>verificar_password\<close>: \<open>check\<close> stands for \<^verbatim>\<open>bcrypt.check_password_hash\<close>.
  The second component lists the calls made to it, as pairs (hash, password), so that
  "the credential was not evaluated" is the statement that this list is empty.
\<close>

type_synonym verificador = "string \<Rightarrow> string \<Rightarrow> bool"

definition verificar_password :: "verificador \<Rightarrow> usuario \<Rightarrow> string \<Rightarrow> bool \<times> (string \<times> string) list" where
  "verificar_password check u password_plano =
     (if password_plano = [] then (False, [])
      else (case password_hash u of
        None \<Rightarrow> (False, [])
      | Some h \<Rightarrow>
          if h = [] then (False, [])
          else (check h password_plano, [(h, password_plano)])))"

text \<open>
  \<^verbatim>\<open>generar_tokens_jwt\<close>: the writes the method makes on the object (the tokens
  themselves are not modelled). The method does not commit.
\<close>

definition generar_tokens_jwt :: "int \<Rightarrow> usuario \<Rightarrow> usuario" where
  "generar_tokens_jwt ahora u =
     u\<lparr>fecha_ultimo_acceso := Some ahora, intentos_login_fallidos := 0\<rparr>"

datatype respuesta_login =
    Datos_faltantes_400
  | Credenciales_invalidas_401
  | Cuenta_desactivada_401
  | Cuenta_bloqueada_423
  | Login_exitoso_200

text \<open>
  The body of the route \<^verbatim>\<open>login\<close> (routes/auth.py). \<open>encontrado\<close> is the row that
  \<^verbatim>\<open>Usuario.query.filter_by(email=email).first()\<close> returns for the normalised email;
  the result carries the response, the row as it is stored when the request ends, and
  the calls to the hash comparison. A failed attempt is stored: \<^verbatim>\<open>registrar_intento_fallido\<close>
  commits. On success \<^verbatim>\<open>generar_tokens_jwt\<close> resets the counter and sets
  \<^verbatim>\<open>fecha_ultimo_acceso\<close> on the object only: neither it nor the route commits, so
  the stored row stays as it was. The decorators in front of the body (JSON validation,
  the per-address rate limit, the audit log) can only answer before the body runs.
\<close>

definition login :: "verificador \<Rightarrow> int \<Rightarrow> usuario option \<Rightarrow> string \<Rightarrow> string
    \<Rightarrow> respuesta_login \<times> usuario option \<times> (string \<times> string) list" where
  "login check ahora encontrado email_dado password =
     (if email_dado = [] then (Datos_faltantes_400, encontrado, [])
      else if password = [] then (Datos_faltantes_400, encontrado, [])
      else (case encontrado of
        None \<Rightarrow> (Credenciales_invalidas_401, None, [])
      | Some u \<Rightarrow>
          if \<not> activo u then (Cuenta_desactivada_401, Some u, [])
          else if esta_bloqueado u then (Cuenta_bloqueada_423, Some u, [])
          else (case verificar_password check u password of
            (False, llamadas) \<Rightarrow>
              (Credenciales_invalidas_401, Some (registrar_intento_fallido u), llamadas)
          | (True, llamadas) \<Rightarrow>
              (Login_exitoso_200, Some u, llamadas))))"

text \<open>A run of successive login attempts on the same account, oldest first.\<close>

fun intentos_sucesivos :: "verificador \<Rightarrow> int \<Rightarrow> usuario option \<Rightarrow> string \<Rightarrow> string list
    \<Rightarrow> (respuesta_login \<times> (string \<times> string) list) list \<times> usuario option" where
  "intentos_sucesivos check ahora encontrado email_dado [] = ([], encontrado)"
| "intentos_sucesivos check ahora encontrado email_dado (p # ps) =
     (case login check ahora encontrado email_dado p of
        (r, encontrado1, llamadas) \<Rightarrow>
          (case intentos_sucesivos check ahora encontrado1 email_dado ps of
             (rs, final) \<Rightarrow> ((r, llamadas) # rs, final)))"

section \<open>Requests, responses and the access decorators (utils/decoradores.py)\<close>

text \<open>
  What a handler sees of one request: whether the JWT was accepted, the rows that
  \<^verbatim>\<open>Usuario.query.get\<close> and \<^verbatim>\<open>Documento.query.get\<close> return, the HTTP method,
  endpoint name and path, the header \<^verbatim>\<open>X-OTP-Code\<close>, and whether the document's file
  exists on disk. Header values are byte strings (one \<open>char\<close> per byte).
\<close>

record contexto =
  token_valido :: bool
  usuario_bd :: "usuario option"
  documento_id :: int
  documento_bd :: "documento option"
  metodo :: string
  endpoint :: "string option"
  ruta :: string
  cabecera_otp :: "string option"
  archivo_en_disco :: bool

text \<open>Every response of the handlers below, named after its error code and HTTP status.\<close>

datatype respuesta =
    Token_invalido_401
  | Usuario_no_encontrado_401
  | Cuenta_inactiva_401
  | Usuario_invalido_401
  | Documento_id_faltante_400
  | Documento_no_encontrado_404
  | Documento_no_disponible_410
  | Permisos_insuficientes_403
  | Otp_requerido_ver_428
  | Otp_invalido_401
  | Otp_no_configurado_428
  | Codigo_otp_requerido_428
  | Formato_otp_invalido_400
  | Codigo_otp_invalido_401
  | Error_otp_interno_500
  | Archivo_no_encontrado_404
  | Documento_200
  | Documento_eliminado_200
  | Archivo_enviado_200

definition requiere_autenticacion :: "contexto \<Rightarrow> respuesta + usuario" where
  "requiere_autenticacion ctx =
     (if \<not> token_valido ctx then Inl Token_invalido_401
      else (case usuario_bd ctx of
        None \<Rightarrow> Inl Usuario_no_encontrado_401
      | Some u \<Rightarrow> if \<not> activo u then Inl Cuenta_inactiva_401 else Inr u))"

definition validar_acceso_documento :: "string \<Rightarrow> contexto \<Rightarrow> respuesta + usuario \<times> documento" where
  "validar_acceso_documento accion ctx =
     (case requiere_autenticacion ctx of
        Inl r \<Rightarrow> Inl r
      | Inr u \<Rightarrow>
          if documento_id ctx = 0 then Inl Documento_id_faltante_400
          else (case documento_bd ctx of
            None \<Rightarrow> Inl Documento_no_encontrado_404
          | Some d \<Rightarrow>
              if estado d \<noteq> ''activo'' then Inl Documento_no_disponible_410
              else if \<not> puede_realizar_accion accion u d then Inl Permisos_insuficientes_403
              else Inr (u, d)))"

text \<open>
  Python's \<^verbatim>\<open>a in b\<close> on strings, and \<^verbatim>\<open>str.isdigit\<close> on a string of
  one-byte characters: besides 0-9 the superscript digits one, two and three of Latin-1
  count as digits, and the empty string is not a number.
\<close>

fun empieza_con :: "string \<Rightarrow> string \<Rightarrow> bool" where
  "empieza_con [] s = True"
| "empieza_con (a # as) [] = False"
| "empieza_con (a # as) (c # cs) = (a = c \<and> empieza_con as cs)"

fun contiene :: "string \<Rightarrow> string \<Rightarrow> bool" where
  "contiene a [] = (a = [])"
| "contiene a (c # cs) = (empieza_con a (c # cs) \<or> contiene a cs)"

definition es_digito :: "char \<Rightarrow> bool" where
  "es_digito c =
     (c \<in> set ''0123456789'' \<or> c = char_of (178::nat) \<or> c = char_of (179::nat)
        \<or> c = char_of (185::nat))"

definition isdigit :: "string \<Rightarrow> bool" where
  "isdigit s = (s \<noteq> [] \<and> list_all es_digito s)"

definition accion_map :: "string \<rightharpoonup> string" where
  "accion_map =
     [''GET'' \<mapsto> ''ver'', ''PUT'' \<mapsto> ''editar'', ''PATCH'' \<mapsto> ''editar'',
      ''DELETE'' \<mapsto> ''eliminar'', ''POST'' \<mapsto> ''crear'']"

definition accion_de_peticion :: "contexto \<Rightarrow> string" where
  "accion_de_peticion ctx =
     (let accion = (case accion_map (metodo ctx) of None \<Rightarrow> ''ver'' | Some a \<Rightarrow> a);
          ep = (case endpoint ctx of None \<Rightarrow> [] | Some e \<Rightarrow> e)
      in if contiene ''descargar'' ep then ''descargar''
         else if contiene ''/descargar'' (ruta ctx) then ''descargar''
         else if contiene ''actualizar'' ep then ''editar''
         else accion)"

text \<open>
  \<^verbatim>\<open>requiere_otp_para_documento\<close>. The first component is \<open>None\<close> when the decorator
  calls the wrapped handler and \<open>Some r\<close> when it answers \<open>r\<close> itself; the second is the
  user's row afterwards. The decorator reads the JWT identity without requiring a token
  first, so a missing token raises inside the \<^verbatim>\<open>try\<close> and gives the 500 answer. No route
  of the sources applies this decorator.
\<close>

definition requiere_otp_para_documento :: "generador \<Rightarrow> int \<Rightarrow> contexto
    \<Rightarrow> respuesta option \<times> usuario option" where
  "requiere_otp_para_documento gen ahora ctx =
     (if \<not> token_valido ctx then (Some Error_otp_interno_500, usuario_bd ctx)
      else (case usuario_bd ctx of
        None \<Rightarrow> (Some Usuario_invalido_401, None)
      | Some u \<Rightarrow>
          if \<not> activo u then (Some Usuario_invalido_401, Some u)
          else if documento_id ctx = 0 then (Some Documento_id_faltante_400, Some u)
          else (case documento_bd ctx of
            None \<Rightarrow> (Some Documento_no_encontrado_404, Some u)
          | Some d \<Rightarrow>
              if estado d \<noteq> ''activo'' then (Some Documento_no_encontrado_404, Some u)
              else if \<not> requiere_otp_para_accion (accion_de_peticion ctx) (nivel_seguridad d) (rol u)
                then (None, Some u)
              else if \<not> otp_habilitado u then (Some Otp_no_configurado_428, Some u)
              else (case cabecera_otp ctx of
                None \<Rightarrow> (Some Codigo_otp_requerido_428, Some u)
              | Some codigo_otp \<Rightarrow>
                  if codigo_otp = [] then (Some Codigo_otp_requerido_428, Some u)
                  else if \<not> isdigit codigo_otp then (Some Formato_otp_invalido_400, Some u)
                  else if length codigo_otp \<noteq> 6 then (Some Formato_otp_invalido_400, Some u)
                  else (case validar_otp gen ahora u codigo_otp of
                    (False, u1) \<Rightarrow> (Some Codigo_otp_invalido_401, Some u1)
                  | (True, u1) \<Rightarrow> (None, Some u1))))))"

section \<open>Document routes (routes/documentos.py)\<close>

text \<open>
  Each route returns the response and the two rows as the handler leaves them. The
  decorator \<^verbatim>\<open>registrar_auditoria\<close> only writes a log line after the handler.
\<close>

definition registrar_visualizacion :: "int \<Rightarrow> documento \<Rightarrow> documento" where
  "registrar_visualizacion ahora d =
     d\<lparr>contador_visualizaciones := contador_visualizaciones d + 1,
       fecha_ultimo_acceso_doc := Some ahora\<rparr>"

definition registrar_descarga :: "int \<Rightarrow> documento \<Rightarrow> documento" where
  "registrar_descarga ahora d =
     d\<lparr>contador_descargas := contador_descargas d + 1,
       fecha_ultimo_acceso_doc := Some ahora\<rparr>"

definition obtener_ruta_completa :: "contexto \<Rightarrow> documento \<Rightarrow> string option" where
  "obtener_ruta_completa ctx d =
     (if presente (ruta_archivo d) \<and> archivo_en_disco ctx then ruta_archivo d else None)"

definition obtener_documento :: "generador \<Rightarrow> int \<Rightarrow> contexto
    \<Rightarrow> respuesta \<times> usuario option \<times> documento option" where
  "obtener_documento gen ahora ctx =
     (case validar_acceso_documento ''ver'' ctx of
        Inl r \<Rightarrow> (r, usuario_bd ctx, documento_bd ctx)
      | Inr (u, d) \<Rightarrow>
          if requiere_otp_para_accion ''ver'' (nivel_seguridad d) (rol u) then
            (case cabecera_otp ctx of
               None \<Rightarrow> (Otp_requerido_ver_428, Some u, Some d)
             | Some codigo_otp \<Rightarrow>
                 if codigo_otp = [] then (Otp_requerido_ver_428, Some u, Some d)
                 else (case validar_otp gen ahora u codigo_otp of
                   (False, u1) \<Rightarrow> (Otp_invalido_401, Some u1, Some d)
                 | (True, u1) \<Rightarrow> (Documento_200, Some u1, Some (registrar_visualizacion ahora d))))
          else (Documento_200, Some u, Some (registrar_visualizacion ahora d)))"

definition eliminar_documento :: "int \<Rightarrow> contexto \<Rightarrow> respuesta \<times> usuario option \<times> documento option" where
  "eliminar_documento ahora ctx =
     (case validar_acceso_documento ''eliminar'' ctx of
        Inl r \<Rightarrow> (r, usuario_bd ctx, documento_bd ctx)
      | Inr (u, d) \<Rightarrow>
          (Documento_eliminado_200, Some u,
           Some (d\<lparr>estado := ''eliminado'', fecha_modificacion := Some ahora\<rparr>)))"

definition descargar_documento :: "int \<Rightarrow> contexto \<Rightarrow> respuesta \<times> usuario option \<times> documento option" where
  "descargar_documento ahora ctx =
     (case validar_acceso_documento ''descargar'' ctx of
        Inl r \<Rightarrow> (r, usuario_bd ctx, documento_bd ctx)
      | Inr (u, d) \<Rightarrow>
          (case obtener_ruta_completa ctx d of
             None \<Rightarrow> (Archivo_no_encontrado_404, Some u, Some d)
           | Some f \<Rightarrow> (Archivo_enviado_200, Some u, Some (registrar_descarga ahora d))))"

section \<open>Second-factor routes (routes/auth.py)\<close>

datatype respuesta_otp =
    Usuario_invalido_otp_401
  | Error_generando_500
  | Configuracion_iniciada_200
  | No_hay_configuracion_pendiente_400
  | Codigo_no_numerico_400
  | Otp_activado_200
  | Codigo_incorrecto_400
  | Reseteado_200

text \<open>
  \<^verbatim>\<open>configurar_otp_inicial\<close>: without \<^verbatim>\<open>codigo_validacion\<close> in the body it starts a
  configuration (step 1); with one it validates the code against the pending secret and
  activates (step 2). \<open>datos_otp\<close> is the freshly generated key used by step 1.
\<close>

definition configurar_otp_inicial :: "generador \<Rightarrow> int \<Rightarrow> string option \<Rightarrow> usuario option
    \<Rightarrow> string option \<Rightarrow> respuesta_otp \<times> usuario option" where
  "configurar_otp_inicial gen ahora datos_otp encontrado codigo_validacion =
     (case encontrado of
        None \<Rightarrow> (Usuario_invalido_otp_401, None)
      | Some u \<Rightarrow>
          if \<not> activo u then (Usuario_invalido_otp_401, Some u)
          else if \<not> presente codigo_validacion then
            (case configurar_otp datos_otp u of
               (None, u1) \<Rightarrow> (Error_generando_500, Some u1)
             | (Some k, u1) \<Rightarrow> (Configuracion_iniciada_200, Some (u1\<lparr>otp_habilitado := False\<rparr>)))
          else
            (let codigo = (case codigo_validacion of None \<Rightarrow> [] | Some c \<Rightarrow> c) in
             if \<not> presente (clave_otp_base32 u) then (No_hay_configuracion_pendiente_400, Some u)
             else if \<not> isdigit codigo then (Codigo_no_numerico_400, Some u)
             else if length codigo \<noteq> 6 then (Codigo_no_numerico_400, Some u)
             else (case validar_otp_con_debug gen ahora u codigo of
               (True, u1) \<Rightarrow>
                 (Otp_activado_200, Some (u1\<lparr>otp_habilitado := True, fecha_ultimo_otp := Some ahora\<rparr>))
             | (False, u1) \<Rightarrow> (Codigo_incorrecto_400, Some u1))))"

definition resetear_configuracion_otp :: "usuario option \<Rightarrow> respuesta_otp \<times> usuario option" where
  "resetear_configuracion_otp encontrado =
     (case encontrado of
        None \<Rightarrow> (Usuario_invalido_otp_401, None)
      | Some u \<Rightarrow>
          if \<not> activo u then (Usuario_invalido_otp_401, Some u)
          else (Reseteado_200,
                Some (u\<lparr>otp_habilitado := False, clave_otp_base32 := None,
                        fecha_ultimo_otp := None\<rparr>)))"

section \<open>Operations on a user's row\<close>

text \<open>
  The operations of the sources that write a user's row, as one step function, so that
  the reachable rows are the results of running any list of them from a new account.
  The methods are run as writes on the row whether or not a caller commits them, which
  can only add reachable rows.
\<close>

datatype operacion =
    Op_configurar_otp "string option"
  | Op_activar_otp_con_validacion generador int string
  | Op_validar_otp generador int string
  | Op_validar_otp_con_debug generador int string
  | Op_configurar_otp_inicial generador int "string option" "string option"
  | Op_resetear_configuracion_otp
  | Op_login verificador int string string
  | Op_desbloquear_cuenta
  | Op_generar_tokens_jwt int
  | Op_obtener_documento generador int contexto
  | Op_requiere_otp_para_documento generador int contexto

definition fila :: "usuario \<Rightarrow> usuario option \<Rightarrow> usuario" where
  "fila u r = (case r of None \<Rightarrow> u | Some u1 \<Rightarrow> u1)"

fun ejecutar :: "operacion \<Rightarrow> usuario \<Rightarrow> usuario" where
  "ejecutar (Op_configurar_otp datos_otp) u = snd (configurar_otp datos_otp u)"
| "ejecutar (Op_activar_otp_con_validacion gen ahora c) u =
     snd (activar_otp_con_validacion gen ahora u c)"
| "ejecutar (Op_validar_otp gen ahora c) u = snd (validar_otp gen ahora u c)"
| "ejecutar (Op_validar_otp_con_debug gen ahora c) u = snd (validar_otp_con_debug gen ahora u c)"
| "ejecutar (Op_configurar_otp_inicial gen ahora datos_otp c) u =
     fila u (snd (configurar_otp_inicial gen ahora datos_otp (Some u) c))"
| "ejecutar Op_resetear_configuracion_otp u = fila u (snd (resetear_configuracion_otp (Some u)))"
| "ejecutar (Op_login check ahora e p) u = fila u (fst (snd (login check ahora (Some u) e p)))"
| "ejecutar Op_desbloquear_cuenta u = desbloquear_cuenta u"
| "ejecutar (Op_generar_tokens_jwt ahora) u = generar_tokens_jwt ahora u"
| "ejecutar (Op_obtener_documento gen ahora ctx) u =
     fila u (fst (snd (obtener_documento gen ahora (ctx\<lparr>usuario_bd := Some u\<rparr>))))"
| "ejecutar (Op_requiere_otp_para_documento gen ahora ctx) u =
     fila u (snd (requiere_otp_para_documento gen ahora (ctx\<lparr>usuario_bd := Some u\<rparr>)))"

fun ejecutar_todas :: "operacion list \<Rightarrow> usuario \<Rightarrow> usuario" where
  "ejecutar_todas [] u = u"
| "ejecutar_todas (op # ops) u = ejecutar_todas ops (ejecutar op u)"

section \<open>Sample data\<close>

text \<open>
  Concrete rows and a concrete code generator for the examples below. The generator is
  a stand-in for the HMAC derivation: the code of a step is its residue modulo 5,
  repeated six times, so the codes of five consecutive steps are pairwise different.
\<close>

definition gen_ejemplo :: generador where
  "gen_ejemplo clave paso =
     (if clave = [] then None
      else if paso mod 5 = 0 then Some ''000000''
      else if paso mod 5 = 1 then Some ''111111''
      else if paso mod 5 = 2 then Some ''222222''
      else if paso mod 5 = 3 then Some ''333333''
      else Some ''444444'')"


definition check_ejemplo :: verificador where
  "check_ejemplo h p = (h = ''hash:'' @ p)"

definition usuario_ejemplo :: usuario where
  "usuario_ejemplo =
     \<lparr>id_usuario = 7, email = ''ana@test.com'', password_hash = Some ''hash:secreta1'',
      rol = ''usuario'', activo = True, fecha_ultimo_acceso = None,
      intentos_login_fallidos = 0, clave_otp_base32 = None, otp_habilitado = False,
      fecha_ultimo_otp = None\<rparr>"

definition documento_ejemplo :: documento where
  "documento_ejemplo =
     \<lparr>id_documento = 3, propietario_id = 7, nivel_seguridad = ''secreto'',
      estado = ''activo'', ruta_archivo = Some ''uploads/secreto/informe.pdf'',
      fecha_modificacion = None, fecha_ultimo_acceso_doc = None,
      contador_descargas = 0, contador_visualizaciones = 0\<rparr>"

definition contexto_ejemplo :: contexto where
  "contexto_ejemplo =
     \<lparr>token_valido = True, usuario_bd = Some usuario_ejemplo, documento_id = 3,
      documento_bd = Some documento_ejemplo, metodo = ''GET'',
      endpoint = Some ''documentos.obtener_documento'', ruta = ''/api/documentos/3'',
      cabecera_otp = None, archivo_en_disco = True\<rparr>"

section \<open>Permission evaluator\<close>

lemma admin_puede_todo:
  "rol u = ''admin'' \<Longrightarrow> puede_realizar_accion accion u d =
     (accion \<in> set [''ver'', ''editar'', ''eliminar'', ''descargar''])"
  by (simp add: puede_realizar_accion_def puede_acceder_documento_def
      puede_modificar_documento_def puede_eliminar_documento_def es_admin_def)

text \<open>
  C3, as amended. The third rule of \<^verbatim>\<open>puede_modificar_documento\<close> grants the edit
  to a supervisor on every document whose level is not \<^verbatim>\<open>secreto\<close>, public ones
  included: for a supervisor who is not the owner, the edit is allowed exactly when the
  document is not secret.
\<close>

theorem supervisor_modifica_no_secreto:
  "rol u = ''supervisor'' \<Longrightarrow> propietario_id d \<noteq> id_usuario u \<Longrightarrow>
     puede_realizar_accion ''editar'' u d = (nivel_seguridad d \<noteq> ''secreto'')"
  by (simp add: puede_realizar_accion_def puede_modificar_documento_def es_admin_def
      es_supervisor_def)

theorem supervisor_modifica_no_secreto_testigo:
  "rol (usuario_ejemplo\<lparr>rol := ''supervisor''\<rparr>) = ''supervisor''
   \<and> propietario_id (documento_ejemplo\<lparr>propietario_id := 8, nivel_seguridad := ''confidencial''\<rparr>)
       \<noteq> id_usuario (usuario_ejemplo\<lparr>rol := ''supervisor''\<rparr>)
   \<and> puede_realizar_accion ''editar'' (usuario_ejemplo\<lparr>rol := ''supervisor''\<rparr>)
       (documento_ejemplo\<lparr>propietario_id := 8, nivel_seguridad := ''confidencial''\<rparr>)"
  using supervisor_modifica_no_secreto
    [of "usuario_ejemplo\<lparr>rol := ''supervisor''\<rparr>"
        "documento_ejemplo\<lparr>propietario_id := 8, nivel_seguridad := ''confidencial''\<rparr>"]
  by (simp add: usuario_ejemplo_def documento_ejemplo_def)

text \<open>
  C3 as stated fails: a supervisor who does not own a public document may edit it.
\<close>

theorem supervisor_edita_publico_ajeno:
  "rol (usuario_ejemplo\<lparr>rol := ''supervisor''\<rparr>) = ''supervisor''
   \<and> propietario_id (documento_ejemplo\<lparr>propietario_id := 8, nivel_seguridad := ''publico''\<rparr>)
       \<noteq> id_usuario (usuario_ejemplo\<lparr>rol := ''supervisor''\<rparr>)
   \<and> nivel_seguridad (documento_ejemplo\<lparr>propietario_id := 8, nivel_seguridad := ''publico''\<rparr>)
       = ''publico''
   \<and> puede_realizar_accion ''editar'' (usuario_ejemplo\<lparr>rol := ''supervisor''\<rparr>)
       (documento_ejemplo\<lparr>propietario_id := 8, nivel_seguridad := ''publico''\<rparr>)"
  by (simp add: usuario_ejemplo_def documento_ejemplo_def puede_realizar_accion_def
      puede_modificar_documento_def es_admin_def es_supervisor_def)

text \<open>
  C9. With the user's identity (and so the ownership) fixed, every action allowed to the
  role \<^verbatim>\<open>usuario\<close> is allowed to \<^verbatim>\<open>supervisor\<close>, and every action allowed to
  \<^verbatim>\<open>supervisor\<close> is allowed to \<^verbatim>\<open>admin\<close>.
\<close>

theorem permisos_monotonos_en_rol:
  "(puede_realizar_accion accion (u\<lparr>rol := ''usuario''\<rparr>) d
      \<longrightarrow> puede_realizar_accion accion (u\<lparr>rol := ''supervisor''\<rparr>) d)
   \<and> (puede_realizar_accion accion (u\<lparr>rol := ''supervisor''\<rparr>) d
      \<longrightarrow> puede_realizar_accion accion (u\<lparr>rol := ''admin''\<rparr>) d)"
  by (simp add: puede_realizar_accion_def puede_acceder_documento_def
      puede_modificar_documento_def puede_eliminar_documento_def es_admin_def es_supervisor_def)

theorem permisos_monotonos_en_rol_testigo:
  "puede_realizar_accion ''ver'' (usuario_ejemplo\<lparr>id_usuario := 9, rol := ''usuario''\<rparr>)
       (documento_ejemplo\<lparr>nivel_seguridad := ''publico''\<rparr>)
   \<and> puede_realizar_accion ''ver'' (usuario_ejemplo\<lparr>id_usuario := 9, rol := ''supervisor''\<rparr>)
       (documento_ejemplo\<lparr>nivel_seguridad := ''publico''\<rparr>)
   \<and> puede_realizar_accion ''ver'' (usuario_ejemplo\<lparr>id_usuario := 9, rol := ''admin''\<rparr>)
       (documento_ejemplo\<lparr>nivel_seguridad := ''publico''\<rparr>)"
proof -
  let ?u = "usuario_ejemplo\<lparr>id_usuario := 9\<rparr>"
  let ?d = "documento_ejemplo\<lparr>nivel_seguridad := ''publico''\<rparr>"
  have base: "puede_realizar_accion ''ver'' (?u\<lparr>rol := ''usuario''\<rparr>) ?d"
    by (simp add: usuario_ejemplo_def documento_ejemplo_def puede_realizar_accion_def
        puede_acceder_documento_def es_admin_def)
  from permisos_monotonos_en_rol [of "''ver''" ?u ?d] base
  have "puede_realizar_accion ''ver'' (?u\<lparr>rol := ''supervisor''\<rparr>) ?d"
    and "puede_realizar_accion ''ver'' (?u\<lparr>rol := ''admin''\<rparr>) ?d"
    by blast+
  with base show ?thesis by simp
qed


section \<open>The acceptance window\<close>

lemma timecode_desplazado: "timecode (t + i * 30) = timecode t + i"
  by (simp add: timecode_def)

lemma timecode_pasos:
  "timecode (t - 60) = timecode t - 2" "timecode (t - 30) = timecode t - 1"
  "timecode (t + 30) = timecode t + 1" "timecode (t + 60) = timecode t + 2"
  using timecode_desplazado [of t "-2"] timecode_desplazado [of t "-1"]
    timecode_desplazado [of t 1] timecode_desplazado [of t 2]
  by simp_all

lemma ventana_1: "[- 1 .. 1 :: int] = [-1, 0, 1]"
  by code_simp

lemma ventana_2: "[- 2 .. 2 :: int] = [-2, -1, 0, 1, 2]"
  by code_simp

lemma cinco_pasos:
  "list_all P [- 2 .. 2 :: int] = (P (-2) \<and> P (-1) \<and> P 0 \<and> P 1 \<and> P 2)"
  unfolding ventana_2 by simp

lemma totp_verify_1:
  "gen clave (timecode t - 1) = Some a \<Longrightarrow> gen clave (timecode t) = Some b \<Longrightarrow>
   gen clave (timecode t + 1) = Some c \<Longrightarrow>
   totp_verify gen clave t otp 1 = Some (otp = a \<or> otp = b \<or> otp = c)"
  unfolding totp_verify_def ventana_1 by auto

lemma validar_otp_codigo_ventana:
  assumes "list_all (\<lambda>i. gen clave (timecode (ahora + i * 30)) \<noteq> None) [-2 .. 2]"
  shows "es_valido (validar_otp_codigo gen ahora codigo clave) =
           (gen clave (timecode (ahora - 30)) = Some codigo
            \<or> gen clave (timecode ahora) = Some codigo
            \<or> gen clave (timecode (ahora + 30)) = Some codigo)"
proof -
  from assms obtain a b c where
    abc: "gen clave (timecode ahora - 1) = Some a" "gen clave (timecode ahora) = Some b"
      "gen clave (timecode ahora + 1) = Some c"
    unfolding cinco_pasos by (auto simp add: timecode_pasos)
  show ?thesis
    unfolding validar_otp_codigo_def
    using assms abc totp_verify_1 [of gen clave ahora a b c codigo]
    by (auto simp add: timecode_pasos)
qed

lemma validar_otp_codigo_solo_en_ventana:
  "es_valido (validar_otp_codigo gen ahora codigo clave) \<Longrightarrow>
     gen clave (timecode (ahora - 30)) = Some codigo
     \<or> gen clave (timecode ahora) = Some codigo
     \<or> gen clave (timecode (ahora + 30)) = Some codigo"
  unfolding validar_otp_codigo_def totp_verify_def ventana_1
  by (auto simp add: timecode_pasos error_validacion_def split: option.splits if_splits)

lemma validar_otp_codigo_sin_derivacion:
  "gen clave (timecode ahora) = None \<Longrightarrow> \<not> es_valido (validar_otp_codigo gen ahora codigo clave)"
  by (simp add: validar_otp_codigo_def error_validacion_def)





section \<open>Verification of a code for a user\<close>

lemma validar_otp_rechazo:
  "\<not> fst (validar_otp gen ahora u codigo) \<Longrightarrow> snd (validar_otp gen ahora u codigo) = u"
  by (simp add: validar_otp_def split: option.splits if_splits)

lemma validar_otp_campos:
  "otp_habilitado (snd (validar_otp gen ahora u codigo)) = otp_habilitado u"
  "clave_otp_base32 (snd (validar_otp gen ahora u codigo)) = clave_otp_base32 u"
  "intentos_login_fallidos (snd (validar_otp gen ahora u codigo)) = intentos_login_fallidos u"
  by (simp_all add: validar_otp_def split: option.splits)

lemma validar_otp_inactivo:
  "\<not> otp_habilitado u \<Longrightarrow> validar_otp gen ahora u codigo = (False, u)"
  by (simp add: validar_otp_def)

text \<open>
  C10. When \<^verbatim>\<open>validar_otp\<close> returns False, for a wrong code or for a user whose
  second factor is not active, the row is left as it was; \<^verbatim>\<open>fecha_ultimo_otp\<close>
  changes only on a successful verification, and the counter of failed logins is never
  touched.
\<close>

theorem validar_otp_fallido_sin_efecto:
  "(\<not> fst (validar_otp gen ahora u codigo) \<longrightarrow> snd (validar_otp gen ahora u codigo) = u)
   \<and> (fecha_ultimo_otp (snd (validar_otp gen ahora u codigo)) \<noteq> fecha_ultimo_otp u
        \<longrightarrow> fst (validar_otp gen ahora u codigo))
   \<and> intentos_login_fallidos (snd (validar_otp gen ahora u codigo)) = intentos_login_fallidos u"
  using validar_otp_rechazo [of gen ahora u codigo] validar_otp_campos(3) [of gen ahora u codigo]
  by (cases "fst (validar_otp gen ahora u codigo)") simp_all

theorem validar_otp_fallido_sin_efecto_testigo:
  "\<not> fst (validar_otp gen_ejemplo 3000
        (usuario_ejemplo\<lparr>clave_otp_base32 := Some ''JBSWY3DPEHPK3PXP'', otp_habilitado := True\<rparr>)
        ''333333'')
   \<and> snd (validar_otp gen_ejemplo 3000
        (usuario_ejemplo\<lparr>clave_otp_base32 := Some ''JBSWY3DPEHPK3PXP'', otp_habilitado := True\<rparr>)
        ''333333'')
     = usuario_ejemplo\<lparr>clave_otp_base32 := Some ''JBSWY3DPEHPK3PXP'', otp_habilitado := True\<rparr>
   \<and> \<not> fst (validar_otp gen_ejemplo 3000 usuario_ejemplo ''000000'')
   \<and> snd (validar_otp gen_ejemplo 3000 usuario_ejemplo ''000000'') = usuario_ejemplo"
proof -
  let ?u = "usuario_ejemplo\<lparr>clave_otp_base32 := Some ''JBSWY3DPEHPK3PXP'', otp_habilitado := True\<rparr>"
  have h: "list_all (\<lambda>i. gen_ejemplo ''JBSWY3DPEHPK3PXP'' (timecode (3000 + i * 30)) \<noteq> None)
             [-2 .. 2]"
    unfolding cinco_pasos by (simp add: gen_ejemplo_def timecode_def)
  have "\<not> es_valido (validar_otp_codigo gen_ejemplo 3000 ''333333'' ''JBSWY3DPEHPK3PXP'')"
    using h validar_otp_codigo_ventana [of gen_ejemplo "''JBSWY3DPEHPK3PXP''" 3000 "''333333''"]
    by (simp add: gen_ejemplo_def timecode_def)
  then have a: "\<not> fst (validar_otp gen_ejemplo 3000 ?u ''333333'')"
    by (simp add: validar_otp_def usuario_ejemplo_def)
  have b: "\<not> fst (validar_otp gen_ejemplo 3000 usuario_ejemplo ''000000'')"
    by (simp add: validar_otp_def usuario_ejemplo_def)
  show ?thesis
    using a b validar_otp_fallido_sin_efecto [of gen_ejemplo 3000 ?u "''333333''"]
      validar_otp_fallido_sin_efecto [of gen_ejemplo 3000 usuario_ejemplo "''000000''"]
    by simp
qed

section \<open>Lockout\<close>

lemma login_cuenta_bloqueada:
  "esta_bloqueado u \<Longrightarrow>
     snd (snd (login check ahora (Some u) email_dado password)) = []
     \<and> fst (snd (login check ahora (Some u) email_dado password)) = Some u
     \<and> fst (login check ahora (Some u) email_dado password)
         \<in> set [Datos_faltantes_400, Cuenta_desactivada_401, Cuenta_bloqueada_423]"
  by (simp add: login_def)

lemma login_bloqueada_423:
  "esta_bloqueado u \<Longrightarrow> activo u \<Longrightarrow> email_dado \<noteq> [] \<Longrightarrow> password \<noteq> [] \<Longrightarrow>
     login check ahora (Some u) email_dado password = (Cuenta_bloqueada_423, Some u, [])"
  by (simp add: login_def)

lemma login_fallido:
  "activo u \<Longrightarrow> \<not> esta_bloqueado u \<Longrightarrow> email_dado \<noteq> [] \<Longrightarrow> password \<noteq> [] \<Longrightarrow>
   \<not> fst (verificar_password check u password) \<Longrightarrow>
     login check ahora (Some u) email_dado password =
       (Credenciales_invalidas_401, Some (registrar_intento_fallido u),
        snd (verificar_password check u password))"
  by (cases "verificar_password check u password") (simp add: login_def)

lemma quinto_fallo_bloquea:
  "intentos_login_fallidos u = 4 \<Longrightarrow>
     \<not> esta_bloqueado u \<and> esta_bloqueado (registrar_intento_fallido u)"
  by (simp add: esta_bloqueado_def registrar_intento_fallido_def)

text \<open>
  C4. A failed login that takes the counter from 4 to 5 leaves the account blocked; and
  for a blocked account every login attempt, whatever the password and whatever the hash
  comparison would answer, is refused with no call to the hash comparison and leaves the
  row as it was.
\<close>

theorem bloqueo_sin_evaluar_credencial:
  "(activo u \<and> intentos_login_fallidos u = 4 \<and> email_dado \<noteq> [] \<and> password \<noteq> []
      \<and> \<not> fst (verificar_password check u password)
      \<longrightarrow> fst (snd (login check ahora (Some u) email_dado password))
            = Some (registrar_intento_fallido u)
          \<and> intentos_login_fallidos (registrar_intento_fallido u) = 5
          \<and> esta_bloqueado (registrar_intento_fallido u))
   \<and> (intentos_login_fallidos u \<ge> 5
      \<longrightarrow> esta_bloqueado u
          \<and> snd (snd (login check1 ahora1 (Some u) email1 password1)) = []
          \<and> fst (snd (login check1 ahora1 (Some u) email1 password1)) = Some u
          \<and> fst (login check1 ahora1 (Some u) email1 password1)
              \<in> set [Datos_faltantes_400, Cuenta_desactivada_401, Cuenta_bloqueada_423])"
proof (intro conjI impI)
  assume a: "activo u \<and> intentos_login_fallidos u = 4 \<and> email_dado \<noteq> [] \<and> password \<noteq> []
      \<and> \<not> fst (verificar_password check u password)"
  then have nb: "\<not> esta_bloqueado u" using quinto_fallo_bloquea [of u] by simp
  from a nb show "fst (snd (login check ahora (Some u) email_dado password))
      = Some (registrar_intento_fallido u)"
    by (simp add: login_fallido)
  from a show "intentos_login_fallidos (registrar_intento_fallido u) = 5"
    by (simp add: registrar_intento_fallido_def)
  from a show "esta_bloqueado (registrar_intento_fallido u)"
    using quinto_fallo_bloquea [of u] by simp
next
  assume b: "intentos_login_fallidos u \<ge> 5"
  then show "esta_bloqueado u" by (simp add: esta_bloqueado_def)
  then show "snd (snd (login check1 ahora1 (Some u) email1 password1)) = []"
    and "fst (snd (login check1 ahora1 (Some u) email1 password1)) = Some u"
    and "fst (login check1 ahora1 (Some u) email1 password1)
          \<in> set [Datos_faltantes_400, Cuenta_desactivada_401, Cuenta_bloqueada_423]"
    using login_cuenta_bloqueada [of u check1 ahora1 email1 password1] by simp_all
qed

theorem bloqueo_sin_evaluar_credencial_testigo:
  "fst (snd (login check_ejemplo 100 (Some (usuario_ejemplo\<lparr>intentos_login_fallidos := 4\<rparr>))
          ''ana@test.com'' ''equivocada''))
     = Some (usuario_ejemplo\<lparr>intentos_login_fallidos := 5\<rparr>)
   \<and> esta_bloqueado (usuario_ejemplo\<lparr>intentos_login_fallidos := 5\<rparr>)
   \<and> check_ejemplo ''hash:secreta1'' ''secreta1''
   \<and> snd (snd (login check_ejemplo 130 (Some (usuario_ejemplo\<lparr>intentos_login_fallidos := 5\<rparr>))
          ''ana@test.com'' ''secreta1'')) = []
   \<and> fst (login check_ejemplo 130 (Some (usuario_ejemplo\<lparr>intentos_login_fallidos := 5\<rparr>))
          ''ana@test.com'' ''secreta1'') = Cuenta_bloqueada_423"
proof -
  let ?u4 = "usuario_ejemplo\<lparr>intentos_login_fallidos := 4\<rparr>"
  let ?u5 = "usuario_ejemplo\<lparr>intentos_login_fallidos := 5\<rparr>"
  have p: "activo ?u4 \<and> intentos_login_fallidos ?u4 = 4 \<and> ''ana@test.com'' \<noteq> []
      \<and> ''equivocada'' \<noteq> [] \<and> \<not> fst (verificar_password check_ejemplo ?u4 ''equivocada'')"
    by (simp add: usuario_ejemplo_def verificar_password_def check_ejemplo_def)
  have r: "registrar_intento_fallido ?u4 = ?u5"
    by (simp add: registrar_intento_fallido_def)
  have q: "intentos_login_fallidos ?u5 \<ge> 5" by simp
  have c: "check_ejemplo ''hash:secreta1'' ''secreta1''" by (simp add: check_ejemplo_def)
  have s: "fst (login check_ejemplo 130 (Some ?u5) ''ana@test.com'' ''secreta1'')
      = Cuenta_bloqueada_423"
    by (simp add: login_def esta_bloqueado_def usuario_ejemplo_def)
  show ?thesis
    using p q r c s
      bloqueo_sin_evaluar_credencial [of ?u4 "''ana@test.com''" "''equivocada''" check_ejemplo 100
        check_ejemplo 130 "''ana@test.com''" "''secreta1''"]
      bloqueo_sin_evaluar_credencial [of ?u5 "''ana@test.com''" "''equivocada''" check_ejemplo 100
        check_ejemplo 130 "''ana@test.com''" "''secreta1''"]
    by simp
qed

text \<open>
  Five wrong passwords in a row from a fresh counter, then the right one: the five
  failures each call the hash comparison once, the sixth attempt is refused as blocked
  with no call at all.
\<close>

lemma seis_intentos:
  "fst (intentos_sucesivos check_ejemplo 100 (Some usuario_ejemplo) ''ana@test.com''
        [''a1'', ''a2'', ''a3'', ''a4'', ''a5'', ''secreta1''])
   = [(Credenciales_invalidas_401, [(''hash:secreta1'', ''a1'')]),
      (Credenciales_invalidas_401, [(''hash:secreta1'', ''a2'')]),
      (Credenciales_invalidas_401, [(''hash:secreta1'', ''a3'')]),
      (Credenciales_invalidas_401, [(''hash:secreta1'', ''a4'')]),
      (Credenciales_invalidas_401, [(''hash:secreta1'', ''a5'')]),
      (Cuenta_bloqueada_423, [])]"
  by (simp add: login_def usuario_ejemplo_def verificar_password_def check_ejemplo_def
      esta_bloqueado_def registrar_intento_fallido_def)

section \<open>The invariant of the second-factor record\<close>

lemma validar_otp_con_debug_campos:
  "otp_habilitado (snd (validar_otp_con_debug gen ahora u codigo)) = otp_habilitado u"
  "clave_otp_base32 (snd (validar_otp_con_debug gen ahora u codigo)) = clave_otp_base32 u"
  by (simp_all add: validar_otp_con_debug_def split: option.splits)

lemma configurar_otp_inv:
  "otp_habilitado (snd (configurar_otp datos_otp u)) \<Longrightarrow>
     otp_habilitado u \<and> clave_otp_base32 (snd (configurar_otp datos_otp u)) = clave_otp_base32 u"
  by (simp add: configurar_otp_def split: option.splits)

lemma activar_otp_con_validacion_inv:
  "otp_habilitado (snd (activar_otp_con_validacion gen ahora u c)) \<Longrightarrow>
     clave_otp_base32 (snd (activar_otp_con_validacion gen ahora u c)) = clave_otp_base32 u
     \<and> (otp_habilitado u \<or> presente (clave_otp_base32 u))"
proof -
  assume h: "otp_habilitado (snd (activar_otp_con_validacion gen ahora u c))"
  obtain b u1 where v: "validar_otp gen ahora u c = (b, u1)"
    by (cases "validar_otp gen ahora u c")
  have u1: "otp_habilitado u1 = otp_habilitado u" "clave_otp_base32 u1 = clave_otp_base32 u"
    using validar_otp_campos(1,2) [of gen ahora u c] v by simp_all
  show ?thesis
    using h v u1 by (cases b) (auto simp add: activar_otp_con_validacion_def split: if_splits)
qed

lemma configurar_otp_inicial_inv:
  "snd (configurar_otp_inicial gen ahora datos_otp (Some u) c) = Some u1 \<Longrightarrow>
   otp_habilitado u1 \<Longrightarrow>
     clave_otp_base32 u1 = clave_otp_base32 u \<and> (otp_habilitado u \<or> presente (clave_otp_base32 u))"
proof -
  assume r: "snd (configurar_otp_inicial gen ahora datos_otp (Some u) c) = Some u1"
    and h: "otp_habilitado u1"
  obtain b u2 where v: "validar_otp_con_debug gen ahora u (case c of None \<Rightarrow> [] | Some x \<Rightarrow> x)
      = (b, u2)"
    by (cases "validar_otp_con_debug gen ahora u (case c of None \<Rightarrow> [] | Some x \<Rightarrow> x)")
  have u2: "otp_habilitado u2 = otp_habilitado u" "clave_otp_base32 u2 = clave_otp_base32 u"
    using validar_otp_con_debug_campos [of gen ahora u "case c of None \<Rightarrow> [] | Some x \<Rightarrow> x"] v
    by simp_all
  show ?thesis
    using r h v u2
    by (cases b; cases datos_otp)
      (auto simp add: configurar_otp_inicial_def configurar_otp_def Let_def split: if_splits)
qed

lemma resetear_configuracion_otp_inv:
  "snd (resetear_configuracion_otp (Some u)) = Some u1 \<Longrightarrow> otp_habilitado u1 \<Longrightarrow>
     clave_otp_base32 u1 = clave_otp_base32 u \<and> otp_habilitado u"
  by (auto simp add: resetear_configuracion_otp_def split: if_splits)

lemma login_no_toca_otp:
  "fst (snd (login check ahora (Some u) e p)) = Some u1 \<Longrightarrow>
     clave_otp_base32 u1 = clave_otp_base32 u \<and> otp_habilitado u1 = otp_habilitado u"
  by (cases "verificar_password check u p")
    (auto simp add: login_def registrar_intento_fallido_def generar_tokens_jwt_def
      split: if_splits bool.splits)

lemma obtener_documento_no_toca_otp:
  "fst (snd (obtener_documento gen ahora (ctx\<lparr>usuario_bd := Some u\<rparr>))) = Some u1 \<Longrightarrow>
     clave_otp_base32 u1 = clave_otp_base32 u \<and> otp_habilitado u1 = otp_habilitado u"
proof -
  assume r: "fst (snd (obtener_documento gen ahora (ctx\<lparr>usuario_bd := Some u\<rparr>))) = Some u1"
  have a: "validar_acceso_documento ''ver'' (ctx\<lparr>usuario_bd := Some u\<rparr>) = Inr (u', d) \<Longrightarrow> u' = u"
    for u' d
    by (auto simp add: validar_acceso_documento_def requiere_autenticacion_def
        split: if_splits option.splits sum.splits)
  show ?thesis
  proof (cases "validar_acceso_documento ''ver'' (ctx\<lparr>usuario_bd := Some u\<rparr>)")
    case (Inl x)
    with r show ?thesis by (simp add: obtener_documento_def)
  next
    case (Inr p)
    obtain u' d where p: "p = (u', d)" by (cases p)
    with Inr a have u': "u' = u" by simp
    show ?thesis
    proof (cases "cabecera_otp ctx")
      case None
      with r Inr p u' show ?thesis by (simp add: obtener_documento_def split: if_splits)
    next
      case (Some c)
      obtain b u2 where v: "validar_otp gen ahora u c = (b, u2)"
        by (cases "validar_otp gen ahora u c")
      have "otp_habilitado u2 = otp_habilitado u" "clave_otp_base32 u2 = clave_otp_base32 u"
        using validar_otp_campos(1,2) [of gen ahora u c] v by simp_all
      with r Inr p u' Some v show ?thesis
        by (cases b) (auto simp add: obtener_documento_def split: if_splits)
    qed
  qed
qed

lemma requiere_otp_para_documento_no_toca_otp:
  "snd (requiere_otp_para_documento gen ahora (ctx\<lparr>usuario_bd := Some u\<rparr>)) = Some u1 \<Longrightarrow>
     clave_otp_base32 u1 = clave_otp_base32 u \<and> otp_habilitado u1 = otp_habilitado u"
proof -
  assume r: "snd (requiere_otp_para_documento gen ahora (ctx\<lparr>usuario_bd := Some u\<rparr>)) = Some u1"
  show ?thesis
  proof (cases "cabecera_otp ctx")
    case None
    with r show ?thesis
      by (auto simp add: requiere_otp_para_documento_def split: if_splits option.splits)
  next
    case (Some c)
    obtain b u2 where v: "validar_otp gen ahora u c = (b, u2)"
      by (cases "validar_otp gen ahora u c")
    have "otp_habilitado u2 = otp_habilitado u" "clave_otp_base32 u2 = clave_otp_base32 u"
      using validar_otp_campos(1,2) [of gen ahora u c] v by simp_all
    with r Some v show ?thesis
      by (cases b) (auto simp add: requiere_otp_para_documento_def split: if_splits option.splits)
  qed
qed

lemma presente_no_nulo: "presente s \<Longrightarrow> s \<noteq> None"
  by (cases s) (simp_all add: presente_def)

lemma fila_inv:
  assumes "\<And>u1. r = Some u1 \<Longrightarrow> otp_habilitado u1 \<Longrightarrow> clave_otp_base32 u1 \<noteq> None"
    and "otp_habilitado u \<Longrightarrow> clave_otp_base32 u \<noteq> None"
    and "otp_habilitado (fila u r)"
  shows "clave_otp_base32 (fila u r) \<noteq> None"
proof (cases r)
  case None
  with assms(2,3) show ?thesis by (simp add: fila_def)
next
  case (Some u1)
  with assms(1,3) show ?thesis by (simp add: fila_def)
qed

lemma ejecutar_preserva:
  assumes inv: "otp_habilitado u \<Longrightarrow> clave_otp_base32 u \<noteq> None"
    and h: "otp_habilitado (ejecutar op u)"
  shows "clave_otp_base32 (ejecutar op u) \<noteq> None"
proof (cases op)
  case (Op_configurar_otp x)
  with h inv configurar_otp_inv [of x u] show ?thesis by simp
next
  case (Op_activar_otp_con_validacion gen ahora c)
  with h have h1: "otp_habilitado (snd (activar_otp_con_validacion gen ahora u c))" by simp
  from activar_otp_con_validacion_inv [OF h1] inv presente_no_nulo [of "clave_otp_base32 u"]
  have "clave_otp_base32 (snd (activar_otp_con_validacion gen ahora u c)) \<noteq> None"
    by auto
  with Op_activar_otp_con_validacion show ?thesis by simp
next
  case (Op_validar_otp gen ahora c)
  with h inv validar_otp_campos(1,2) [of gen ahora u c] show ?thesis by simp
next
  case (Op_validar_otp_con_debug gen ahora c)
  with h inv validar_otp_con_debug_campos [of gen ahora u c] show ?thesis by simp
next
  case (Op_configurar_otp_inicial gen ahora x c)
  have "clave_otp_base32 u1 \<noteq> None"
    if "snd (configurar_otp_inicial gen ahora x (Some u) c) = Some u1" "otp_habilitado u1" for u1
    using configurar_otp_inicial_inv [OF that] inv presente_no_nulo [of "clave_otp_base32 u"]
    by auto
  from fila_inv [of "snd (configurar_otp_inicial gen ahora x (Some u) c)" u, OF this inv]
    h Op_configurar_otp_inicial
  show ?thesis by simp
next
  case Op_resetear_configuracion_otp
  have "clave_otp_base32 u1 \<noteq> None"
    if "snd (resetear_configuracion_otp (Some u)) = Some u1" "otp_habilitado u1" for u1
    using resetear_configuracion_otp_inv [OF that] inv by auto
  from fila_inv [of "snd (resetear_configuracion_otp (Some u))" u, OF this inv]
    h Op_resetear_configuracion_otp
  show ?thesis by simp
next
  case (Op_login check ahora e p)
  have "clave_otp_base32 u1 \<noteq> None"
    if "fst (snd (login check ahora (Some u) e p)) = Some u1" "otp_habilitado u1" for u1
    using login_no_toca_otp [OF that(1)] that(2) inv by auto
  from fila_inv [of "fst (snd (login check ahora (Some u) e p))" u, OF this inv] h Op_login
  show ?thesis by simp
next
  case Op_desbloquear_cuenta
  with h inv show ?thesis by (simp add: desbloquear_cuenta_def)
next
  case (Op_generar_tokens_jwt ahora)
  with h inv show ?thesis by (simp add: generar_tokens_jwt_def)
next
  case (Op_obtener_documento gen ahora ctx)
  have "clave_otp_base32 u1 \<noteq> None"
    if "fst (snd (obtener_documento gen ahora (ctx\<lparr>usuario_bd := Some u\<rparr>))) = Some u1"
      "otp_habilitado u1" for u1
    using obtener_documento_no_toca_otp [OF that(1)] that(2) inv by auto
  from fila_inv [of "fst (snd (obtener_documento gen ahora (ctx\<lparr>usuario_bd := Some u\<rparr>)))" u,
      OF this inv] h Op_obtener_documento
  show ?thesis by simp
next
  case (Op_requiere_otp_para_documento gen ahora ctx)
  have "clave_otp_base32 u1 \<noteq> None"
    if "snd (requiere_otp_para_documento gen ahora (ctx\<lparr>usuario_bd := Some u\<rparr>)) = Some u1"
      "otp_habilitado u1" for u1
    using requiere_otp_para_documento_no_toca_otp [OF that(1)] that(2) inv by auto
  from fila_inv [of "snd (requiere_otp_para_documento gen ahora (ctx\<lparr>usuario_bd := Some u\<rparr>))" u,
      OF this inv] h Op_requiere_otp_para_documento
  show ?thesis by simp
qed

lemma ejecutar_todas_preserva:
  "(otp_habilitado u \<longrightarrow> clave_otp_base32 u \<noteq> None) \<Longrightarrow>
   otp_habilitado (ejecutar_todas ops u) \<Longrightarrow> clave_otp_base32 (ejecutar_todas ops u) \<noteq> None"
proof (induction ops arbitrary: u)
  case Nil
  then show ?case by simp
next
  case (Cons op ops)
  have "otp_habilitado (ejecutar op u) \<longrightarrow> clave_otp_base32 (ejecutar op u) \<noteq> None"
    using Cons.prems(1) ejecutar_preserva [of u op] by blast
  with Cons.IH [of "ejecutar op u"] Cons.prems(2) show ?case by simp
qed

text \<open>
  C8. Every operation that writes a user's row keeps the invariant "second factor
  enabled implies a secret is stored", so from a new account (second factor disabled) no
  sequence of operations reaches a row that is enabled without a secret.
\<close>

theorem invariante_segundo_factor:
  "((otp_habilitado u \<longrightarrow> clave_otp_base32 u \<noteq> None)
      \<longrightarrow> (otp_habilitado (ejecutar op u) \<longrightarrow> clave_otp_base32 (ejecutar op u) \<noteq> None))
   \<and> (\<not> otp_habilitado u
      \<longrightarrow> (otp_habilitado (ejecutar_todas ops u)
           \<longrightarrow> clave_otp_base32 (ejecutar_todas ops u) \<noteq> None))"
  using ejecutar_preserva [of u op] ejecutar_todas_preserva [of u ops] by blast

lemma gen_ejemplo_definido:
  "list_all (\<lambda>i. gen_ejemplo ''JBSWY3DPEHPK3PXP'' (timecode (3000 + i * 30)) \<noteq> None) [-2 .. 2]"
  unfolding cinco_pasos by (simp add: gen_ejemplo_def timecode_def)

lemma codigo_ejemplo_valido:
  "es_valido (validar_otp_codigo gen_ejemplo 3000 ''000000'' ''JBSWY3DPEHPK3PXP'')"
  using gen_ejemplo_definido
    validar_otp_codigo_ventana [of gen_ejemplo "''JBSWY3DPEHPK3PXP''" 3000 "''000000''"]
  by (simp add: gen_ejemplo_def timecode_def)

lemma codigo_ejemplo_corto:
  "\<not> es_valido (validar_otp_codigo gen_ejemplo 3000 ''12345'' ''JBSWY3DPEHPK3PXP'')"
  using gen_ejemplo_definido
    validar_otp_codigo_ventana [of gen_ejemplo "''JBSWY3DPEHPK3PXP''" 3000 "''12345''"]
  by (simp add: gen_ejemplo_def timecode_def)

lemma isdigit_seis_ceros: "isdigit ''000000'' \<and> length ''000000'' = 6"
  by (simp add: isdigit_def es_digito_def)

theorem invariante_segundo_factor_testigo:
  "\<not> otp_habilitado usuario_ejemplo
   \<and> otp_habilitado (ejecutar_todas
        [Op_configurar_otp (Some ''JBSWY3DPEHPK3PXP''),
         Op_configurar_otp_inicial gen_ejemplo 3000 None (Some ''000000'')] usuario_ejemplo)
   \<and> clave_otp_base32 (ejecutar_todas
        [Op_configurar_otp (Some ''JBSWY3DPEHPK3PXP''),
         Op_configurar_otp_inicial gen_ejemplo 3000 None (Some ''000000'')] usuario_ejemplo)
      \<noteq> None
   \<and> \<not> otp_habilitado (ejecutar Op_resetear_configuracion_otp
        (usuario_ejemplo\<lparr>clave_otp_base32 := Some ''JBSWY3DPEHPK3PXP'', otp_habilitado := True\<rparr>))"
proof -
  let ?ops = "[Op_configurar_otp (Some ''JBSWY3DPEHPK3PXP''),
         Op_configurar_otp_inicial gen_ejemplo 3000 None (Some ''000000'')]"
  let ?ua = "usuario_ejemplo\<lparr>clave_otp_base32 := Some ''JBSWY3DPEHPK3PXP'', otp_habilitado := True\<rparr>"
  have n: "\<not> otp_habilitado usuario_ejemplo" by (simp add: usuario_ejemplo_def)
  have e: "otp_habilitado (ejecutar_todas ?ops usuario_ejemplo)"
    using codigo_ejemplo_valido isdigit_seis_ceros
    by (simp add: configurar_otp_def configurar_otp_inicial_def validar_otp_con_debug_def
        presente_def fila_def usuario_ejemplo_def)
  have r: "\<not> otp_habilitado (ejecutar Op_resetear_configuracion_otp ?ua)"
    by (simp add: resetear_configuracion_otp_def fila_def usuario_ejemplo_def)
  show ?thesis
    using n e r invariante_segundo_factor [of usuario_ejemplo Op_resetear_configuracion_otp ?ops]
    by blast
qed

section \<open>Confirming a pending configuration\<close>

lemma activar_pendiente_siempre_falla:
  "\<not> otp_habilitado u \<Longrightarrow> activar_otp_con_validacion gen ahora u codigo = (False, u)"
  by (simp add: activar_otp_con_validacion_def validar_otp_def)

lemma confirmar_por_ruta:
  assumes "activo u" "clave_otp_base32 u = Some k" "k \<noteq> []" "isdigit c" "length c = 6"
  shows "configurar_otp_inicial gen ahora datos_otp (Some u) (Some c) =
           (if es_valido (validar_otp_codigo gen ahora c k)
            then (Otp_activado_200, Some (u\<lparr>otp_habilitado := True, fecha_ultimo_otp := Some ahora\<rparr>))
            else (Codigo_incorrecto_400, Some u))"
proof -
  from assms(4) have "c \<noteq> []" by (simp add: isdigit_def)
  with assms show ?thesis
    by (simp add: configurar_otp_inicial_def validar_otp_con_debug_def presente_def)
qed

text \<open>
  C5. The method \<^verbatim>\<open>activar_otp_con_validacion\<close> validates through
  \<^verbatim>\<open>validar_otp\<close>, which answers False whenever the second factor is not yet
  enabled; called on a pending configuration with the code that is valid for the pending
  secret at the current time, it returns False and leaves the row pending.
\<close>

theorem activar_pendiente_rechaza_codigo_valido:
  "presente (clave_otp_base32 (usuario_ejemplo\<lparr>clave_otp_base32 := Some ''JBSWY3DPEHPK3PXP''\<rparr>))
   \<and> \<not> otp_habilitado (usuario_ejemplo\<lparr>clave_otp_base32 := Some ''JBSWY3DPEHPK3PXP''\<rparr>)
   \<and> es_valido (validar_otp_codigo gen_ejemplo 3000 ''000000'' ''JBSWY3DPEHPK3PXP'')
   \<and> activar_otp_con_validacion gen_ejemplo 3000
        (usuario_ejemplo\<lparr>clave_otp_base32 := Some ''JBSWY3DPEHPK3PXP''\<rparr>) ''000000''
      = (False, usuario_ejemplo\<lparr>clave_otp_base32 := Some ''JBSWY3DPEHPK3PXP''\<rparr>)"
  using codigo_ejemplo_valido
  by (simp add: activar_pendiente_siempre_falla presente_def usuario_ejemplo_def)

text \<open>The route \<^verbatim>\<open>configurar_otp_inicial\<close> does activate on the same input.\<close>

lemma ruta_activa_pendiente:
  "configurar_otp_inicial gen_ejemplo 3000 None
     (Some (usuario_ejemplo\<lparr>clave_otp_base32 := Some ''JBSWY3DPEHPK3PXP''\<rparr>)) (Some ''000000'')
   = (Otp_activado_200,
      Some (usuario_ejemplo\<lparr>clave_otp_base32 := Some ''JBSWY3DPEHPK3PXP'',
              otp_habilitado := True, fecha_ultimo_otp := Some 3000\<rparr>))"
  using codigo_ejemplo_valido isdigit_seis_ceros
    confirmar_por_ruta [of "usuario_ejemplo\<lparr>clave_otp_base32 := Some ''JBSWY3DPEHPK3PXP''\<rparr>"
      "''JBSWY3DPEHPK3PXP''" "''000000''" gen_ejemplo 3000 None]
  by (simp add: usuario_ejemplo_def)

section \<open>Second factor on the document routes\<close>

text \<open>
  What the decorator \<^verbatim>\<open>requiere_otp_para_documento\<close> does once the policy matrix asks
  for a second factor: it proceeds only after \<^verbatim>\<open>validar_otp\<close> has accepted a code of
  six digits, and it answers "not configured" for a user whose second factor is off.
\<close>

lemma decorador_procede_solo_verificado:
  assumes "requiere_otp_para_documento gen ahora ctx = (None, fin)"
    and "usuario_bd ctx = Some u" and "documento_bd ctx = Some d"
    and "requiere_otp_para_accion (accion_de_peticion ctx) (nivel_seguridad d) (rol u)"
  shows "\<exists>c. cabecera_otp ctx = Some c \<and> isdigit c \<and> length c = 6
           \<and> fst (validar_otp gen ahora u c)"
proof (cases "cabecera_otp ctx")
  case None
  with assms show ?thesis
    by (simp add: requiere_otp_para_documento_def split: if_splits)
next
  case (Some c)
  obtain b u1 where v: "validar_otp gen ahora u c = (b, u1)"
    by (cases "validar_otp gen ahora u c")
  with assms Some show ?thesis
    by (cases b) (simp_all add: requiere_otp_para_documento_def split: if_splits)
qed

lemma decorador_otp_no_configurado:
  "token_valido ctx \<Longrightarrow> usuario_bd ctx = Some u \<Longrightarrow> activo u \<Longrightarrow> documento_id ctx \<noteq> 0 \<Longrightarrow>
   documento_bd ctx = Some d \<Longrightarrow> estado d = ''activo'' \<Longrightarrow>
   requiere_otp_para_accion (accion_de_peticion ctx) (nivel_seguridad d) (rol u) \<Longrightarrow>
   \<not> otp_habilitado u \<Longrightarrow>
     requiere_otp_para_documento gen ahora ctx = (Some Otp_no_configurado_428, Some u)"
  by (simp add: requiere_otp_para_documento_def)

lemma decorador_formato:
  "token_valido ctx \<Longrightarrow> usuario_bd ctx = Some u \<Longrightarrow> activo u \<Longrightarrow> documento_id ctx \<noteq> 0 \<Longrightarrow>
   documento_bd ctx = Some d \<Longrightarrow> estado d = ''activo'' \<Longrightarrow>
   requiere_otp_para_accion (accion_de_peticion ctx) (nivel_seguridad d) (rol u) \<Longrightarrow>
   otp_habilitado u \<Longrightarrow> cabecera_otp ctx = Some c \<Longrightarrow> c \<noteq> [] \<Longrightarrow>
   \<not> (isdigit c \<and> length c = 6) \<Longrightarrow>
     requiere_otp_para_documento gen ahora ctx = (Some Formato_otp_invalido_400, Some u)"
  by (auto simp add: requiere_otp_para_documento_def)

text \<open>
  The routes \<^verbatim>\<open>eliminar_documento\<close> and \<^verbatim>\<open>descargar_documento\<close> are wrapped in
  \<^verbatim>\<open>validar_acceso_documento\<close> only: their answer does not depend on the header
  \<^verbatim>\<open>X-OTP-Code\<close>.
\<close>

lemma validar_acceso_ignora_cabecera:
  "validar_acceso_documento accion (ctx\<lparr>cabecera_otp := h\<rparr>) = validar_acceso_documento accion ctx"
  by (simp add: validar_acceso_documento_def requiere_autenticacion_def
      split: sum.splits option.splits)

lemma eliminar_documento_ignora_cabecera:
  "eliminar_documento ahora (ctx\<lparr>cabecera_otp := h\<rparr>) = eliminar_documento ahora ctx"
  by (simp add: eliminar_documento_def validar_acceso_ignora_cabecera split: sum.splits)

lemma descargar_documento_ignora_cabecera:
  "descargar_documento ahora (ctx\<lparr>cabecera_otp := h\<rparr>) = descargar_documento ahora ctx"
  by (simp add: descargar_documento_def validar_acceso_ignora_cabecera obtener_ruta_completa_def
      split: sum.splits)

lemma matriz_ejemplo:
  "requiere_otp_para_accion ''ver'' ''secreto'' ''usuario''"
  "requiere_otp_para_accion ''eliminar'' ''secreto'' ''usuario''"
  "requiere_otp_para_accion ''descargar'' ''secreto'' ''usuario''"
  by (simp_all add: requiere_otp_para_accion_def reglas_otp_def)

text \<open>
  C1. The owner of a secret document, with no second factor configured and no code in
  the request, deletes the document and downloads its file, although the policy matrix
  requires a second factor for both actions.
\<close>

theorem eliminar_y_descargar_sin_segundo_factor:
  "requiere_otp_para_accion ''eliminar'' (nivel_seguridad documento_ejemplo) (rol usuario_ejemplo)
   \<and> requiere_otp_para_accion ''descargar'' (nivel_seguridad documento_ejemplo) (rol usuario_ejemplo)
   \<and> \<not> otp_habilitado usuario_ejemplo
   \<and> cabecera_otp contexto_ejemplo = None
   \<and> eliminar_documento 3000
        (contexto_ejemplo\<lparr>metodo := ''DELETE'', endpoint := Some ''documentos.eliminar_documento''\<rparr>)
      = (Documento_eliminado_200, Some usuario_ejemplo,
         Some (documento_ejemplo\<lparr>estado := ''eliminado'', fecha_modificacion := Some 3000\<rparr>))
   \<and> descargar_documento 3000
        (contexto_ejemplo\<lparr>endpoint := Some ''documentos.descargar_documento'',
                           ruta := ''/api/documentos/3/descargar''\<rparr>)
      = (Archivo_enviado_200, Some usuario_ejemplo,
         Some (documento_ejemplo\<lparr>contador_descargas := 1, fecha_ultimo_acceso_doc := Some 3000\<rparr>))"
  using matriz_ejemplo
  by (simp add: eliminar_documento_def descargar_documento_def validar_acceso_documento_def
      requiere_autenticacion_def puede_realizar_accion_def puede_eliminar_documento_def
      puede_acceder_documento_def es_admin_def obtener_ruta_completa_def presente_def
      registrar_descarga_def contexto_ejemplo_def usuario_ejemplo_def documento_ejemplo_def)

text \<open>On the same two requests the decorator would have answered "not configured".\<close>

lemma decorador_en_eliminar_y_descargar:
  "requiere_otp_para_documento gen_ejemplo 3000
     (contexto_ejemplo\<lparr>metodo := ''DELETE'', endpoint := Some ''documentos.eliminar_documento''\<rparr>)
   = (Some Otp_no_configurado_428, Some usuario_ejemplo)"
  "requiere_otp_para_documento gen_ejemplo 3000
     (contexto_ejemplo\<lparr>endpoint := Some ''documentos.descargar_documento'',
                        ruta := ''/api/documentos/3/descargar''\<rparr>)
   = (Some Otp_no_configurado_428, Some usuario_ejemplo)"
  using matriz_ejemplo
  by (simp_all add: requiere_otp_para_documento_def accion_de_peticion_def accion_map_def
      contexto_ejemplo_def usuario_ejemplo_def documento_ejemplo_def)

text \<open>
  The route \<^verbatim>\<open>obtener_documento\<close> carries its own second-factor step: when the matrix
  requires a code and the header holds a non-empty string, the answer is decided by
  \<^verbatim>\<open>validar_otp\<close> alone, whatever the shape of the string and whatever the state of
  the user's second factor.
\<close>

lemma obtener_documento_con_cabecera:
  assumes "validar_acceso_documento ''ver'' ctx = Inr (u, d)"
    and "requiere_otp_para_accion ''ver'' (nivel_seguridad d) (rol u)"
    and "cabecera_otp ctx = Some c" and "c \<noteq> []"
  shows "fst (obtener_documento gen ahora ctx) =
           (if fst (validar_otp gen ahora u c) then Documento_200 else Otp_invalido_401)"
proof -
  obtain b u1 where v: "validar_otp gen ahora u c = (b, u1)"
    by (cases "validar_otp gen ahora u c")
  with assms show ?thesis
    by (cases b) (simp_all add: obtener_documento_def)
qed

lemma obtener_documento_sin_cabecera:
  assumes "validar_acceso_documento ''ver'' ctx = Inr (u, d)"
    and "requiere_otp_para_accion ''ver'' (nivel_seguridad d) (rol u)"
    and "cabecera_otp ctx = None"
  shows "fst (obtener_documento gen ahora ctx) = Otp_requerido_ver_428"
  using assms by (simp add: obtener_documento_def)

lemma ver_procede_solo_verificado:
  assumes "validar_acceso_documento ''ver'' ctx = Inr (u, d)"
    and "requiere_otp_para_accion ''ver'' (nivel_seguridad d) (rol u)"
    and "fst (obtener_documento gen ahora ctx) = Documento_200"
  shows "\<exists>c. cabecera_otp ctx = Some c \<and> c \<noteq> [] \<and> fst (validar_otp gen ahora u c)"
proof (cases "cabecera_otp ctx")
  case None
  with assms obtener_documento_sin_cabecera [of ctx u d gen ahora] show ?thesis by simp
next
  case (Some c)
  show ?thesis
  proof (cases "c = []")
    case True
    with assms Some show ?thesis by (simp add: obtener_documento_def)
  next
    case False
    with assms Some obtener_documento_con_cabecera [of ctx u d c gen ahora] show ?thesis
      by (simp split: if_splits)
  qed
qed

lemma acceso_ejemplo:
  "validar_acceso_documento ''ver'' (contexto_ejemplo\<lparr>cabecera_otp := h\<rparr>)
     = Inr (usuario_ejemplo, documento_ejemplo)"
  by (simp add: validar_acceso_documento_def requiere_autenticacion_def puede_realizar_accion_def
      puede_acceder_documento_def es_admin_def contexto_ejemplo_def usuario_ejemplo_def
      documento_ejemplo_def)

text \<open>
  C2. A user of role \<^verbatim>\<open>usuario\<close> with no second factor configured asks to view a
  secret document: without a code the route answers "code required", and with a code it
  answers "invalid code"; neither is the "not configured" answer.
\<close>

theorem ver_secreto_sin_otp_configurado:
  "rol usuario_ejemplo = ''usuario'' \<and> nivel_seguridad documento_ejemplo = ''secreto''
   \<and> requiere_otp_para_accion ''ver'' ''secreto'' ''usuario''
   \<and> \<not> otp_habilitado usuario_ejemplo \<and> clave_otp_base32 usuario_ejemplo = None
   \<and> fst (obtener_documento gen_ejemplo 3000 contexto_ejemplo) = Otp_requerido_ver_428
   \<and> fst (obtener_documento gen_ejemplo 3000 (contexto_ejemplo\<lparr>cabecera_otp := Some ''000000''\<rparr>))
      = Otp_invalido_401"
proof -
  have a: "validar_acceso_documento ''ver'' contexto_ejemplo = Inr (usuario_ejemplo, documento_ejemplo)"
    using acceso_ejemplo [of "cabecera_otp contexto_ejemplo"] by simp
  have m: "requiere_otp_para_accion ''ver'' (nivel_seguridad documento_ejemplo) (rol usuario_ejemplo)"
    using matriz_ejemplo(1) by (simp add: usuario_ejemplo_def documento_ejemplo_def)
  have n: "\<not> otp_habilitado usuario_ejemplo" by (simp add: usuario_ejemplo_def)
  have "fst (obtener_documento gen_ejemplo 3000 contexto_ejemplo) = Otp_requerido_ver_428"
    using obtener_documento_sin_cabecera [OF a m] by (simp add: contexto_ejemplo_def)
  moreover
  have "fst (obtener_documento gen_ejemplo 3000 (contexto_ejemplo\<lparr>cabecera_otp := Some ''000000''\<rparr>))
      = Otp_invalido_401"
    using obtener_documento_con_cabecera [OF acceso_ejemplo m, of "Some ''000000''" "''000000''"]
      validar_otp_inactivo [OF n]
    by simp
  ultimately show ?thesis
    using matriz_ejemplo(1) n by (simp add: usuario_ejemplo_def documento_ejemplo_def)
qed

text \<open>
  C7. A user with an active second factor asks to view a secret document with the
  five-character code 12345: the route hands the string to \<^verbatim>\<open>validar_otp\<close> and answers
  "invalid code", the answer of a mismatch, where the decorator answers "invalid format".
\<close>

theorem ver_sin_control_de_formato:
  "length ''12345'' \<noteq> 6
   \<and> otp_habilitado (usuario_ejemplo\<lparr>clave_otp_base32 := Some ''JBSWY3DPEHPK3PXP'',
                                     otp_habilitado := True\<rparr>)
   \<and> fst (obtener_documento gen_ejemplo 3000
        (contexto_ejemplo\<lparr>usuario_bd := Some (usuario_ejemplo\<lparr>clave_otp_base32 :=
            Some ''JBSWY3DPEHPK3PXP'', otp_habilitado := True\<rparr>), cabecera_otp := Some ''12345''\<rparr>))
      = Otp_invalido_401
   \<and> fst (requiere_otp_para_documento gen_ejemplo 3000
        (contexto_ejemplo\<lparr>usuario_bd := Some (usuario_ejemplo\<lparr>clave_otp_base32 :=
            Some ''JBSWY3DPEHPK3PXP'', otp_habilitado := True\<rparr>), cabecera_otp := Some ''12345''\<rparr>))
      = Some Formato_otp_invalido_400"
  using codigo_ejemplo_corto matriz_ejemplo
  by (simp add: obtener_documento_def validar_acceso_documento_def requiere_autenticacion_def
      puede_realizar_accion_def puede_acceder_documento_def es_admin_def validar_otp_def
      requiere_otp_para_documento_def accion_de_peticion_def accion_map_def
      contexto_ejemplo_def usuario_ejemplo_def documento_ejemplo_def)

end
